theory Spec2Isabelle
  imports Complex_Main "HOL-Library.Char_ord" "HOL-Library.List_Lexorder"
begin

section \<open>Python values, documents and exceptions\<close>

text \<open>
  The dashboard's data are Python dictionaries exchanged with a MongoDB collection.
  A stored animal record is a flat mapping from attribute names to scalars (None, a
  number, a string); a number is modelled by the real it denotes, so that Python's
  \<^verbatim>\<open>1 == 1.0\<close> is equality here. Arguments and queries may nest lists and
  dictionaries (\<^verbatim>\<open>{"$in": [...]}\<close>, \<^verbatim>\<open>{"$gte": 26, "$lte": 156}\<close>).
  A dictionary is an association list in insertion order; its keys are distinct.
\<close>

datatype scalar = SNone | SNum real | SStr string

datatype pyval = Scalar scalar | PList "pyval list" | PDict "(string \<times> pyval) list"

type_synonym pydict = "(string \<times> pyval) list"

type_synonym animal = "(string \<times> scalar) list"

text \<open>
  Exceptions. \<open>ValueError\<close>, \<open>TypeError\<close> and \<open>KeyError\<close> are the ones the
  code itself raises; \<open>StoreError\<close> stands for whatever else the driver raises.
\<close>

datatype error = ValueError | TypeError | KeyError | StoreError string

section \<open>The collection and the manager\<close>

text \<open>
  \<^verbatim>\<open>self.animals\<close> is a pymongo collection. Its behaviour is not part of the
  repository, so it is a parameter: four operations over a store state \<open>'s\<close>,
  each of which may raise. \<open>find_list\<close> is \<^verbatim>\<open>list(find(q, p).sort(s).limit(n))\<close>,
  the one round trip a cursor makes.
\<close>

type_synonym sort_spec = "(string \<times> int) list"

record 's collection =
  insert_one :: "pydict \<Rightarrow> 's \<Rightarrow> (error + pyval) \<times> 's"
  find_list :: "pydict \<Rightarrow> pydict option \<Rightarrow> sort_spec option \<Rightarrow> int option \<Rightarrow> 's
                  \<Rightarrow> (error + animal list) \<times> 's"
  update_many :: "pydict \<Rightarrow> pydict \<Rightarrow> 's \<Rightarrow> (error + nat) \<times> 's"
  delete_many :: "pydict \<Rightarrow> 's \<Rightarrow> (error + nat) \<times> 's"

datatype store_call =
    InsertOne pydict
  | Find pydict "pydict option" "sort_spec option" "int option"
  | UpdateMany pydict pydict
  | DeleteMany pydict

type_synonym cache_key = "(string \<times> pyval) list \<times> string list option"

text \<open>
  The manager's state: the store behind \<^verbatim>\<open>self.animals\<close>, the dictionary
  \<^verbatim>\<open>self._read_cache\<close>, the calls made to the collection so far (a ghost field:
  it records every round trip), and what \<^verbatim>\<open>print(e)\<close> has written.
\<close>

record 's manager =
  animals :: 's
  read_cache :: "cache_key \<rightharpoonup> animal list"
  store_log :: "store_call list"
  printed :: "error list"

subsection \<open>Internal helpers\<close>

definition normalize_query :: "pydict option \<Rightarrow> pydict" where
  "normalize_query query = (case query of None \<Rightarrow> [] | Some q \<Rightarrow> q)"

text \<open>\<^verbatim>\<open>d[k] = v\<close> on an insertion-ordered dictionary.\<close>

definition dict_set :: "('k \<times> 'v) list \<Rightarrow> 'k \<Rightarrow> 'v \<Rightarrow> ('k \<times> 'v) list" where
  "dict_set d k v =
     (if k \<in> fst ` set d then map (\<lambda>(k', v'). if k' = k then (k', v) else (k', v')) d
      else d @ [(k, v)])"

definition normalize_fields :: "string list option \<Rightarrow> pydict option" where
  "normalize_fields flds =
     (case flds of
        None \<Rightarrow> None
      | Some fs \<Rightarrow>
          if fs = [] then None
          else Some (dict_set (foldl (\<lambda>proj f. dict_set proj f (Scalar (SNum 1))) [] fs)
                       ''_id'' (Scalar (SNum 1))))"

text \<open>
  \<^verbatim>\<open>tuple(sorted(query.items()))\<close>: the keys of a dictionary are distinct strings,
  so the sort compares keys only. \<^verbatim>\<open>fields\<close> is \<open>None\<close> when absent or empty.
\<close>

definition cache_key :: "pydict \<Rightarrow> string list option \<Rightarrow> cache_key" where
  "cache_key query flds =
     (sort_key fst query,
      case flds of None \<Rightarrow> None | Some fs \<Rightarrow> if fs = [] then None else Some (sort fs))"

text \<open>
  A dictionary lookup hashes its key. A tuple is hashable when its components are;
  strings, numbers and None are, lists and dictionaries are not.
\<close>

fun hashable :: "pyval \<Rightarrow> bool" where
  "hashable (Scalar _) = True"
| "hashable (PList _) = False"
| "hashable (PDict _) = False"

definition hashable_key :: "cache_key \<Rightarrow> bool" where
  "hashable_key key = list_all (\<lambda>(k, v). hashable v) (fst key)"

definition cache_get :: "'s manager \<Rightarrow> cache_key \<Rightarrow> error + animal list option" where
  "cache_get m key = (if hashable_key key then Inr (read_cache m key) else Inl TypeError)"

definition cache_set :: "'s manager \<Rightarrow> cache_key \<Rightarrow> animal list \<Rightarrow> error + 's manager" where
  "cache_set m key docs =
     (if hashable_key key then Inr (m\<lparr>read_cache := (read_cache m)(key \<mapsto> docs)\<rparr>)
      else Inl TypeError)"

definition clear_cache :: "'s manager \<Rightarrow> 's manager" where
  "clear_cache m = m\<lparr>read_cache := Map.empty\<rparr>"

subsection \<open>CRUD operations\<close>

text \<open>\<^verbatim>\<open>isinstance(x, dict) and x\<close>: a dictionary with at least one item.\<close>

fun nonempty_dict :: "pyval \<Rightarrow> pydict option" where
  "nonempty_dict (PDict d) = (if d = [] then None else Some d)"
| "nonempty_dict _ = None"

text \<open>Python truthiness, for \<^verbatim>\<open>True if result.inserted_id else False\<close>.\<close>

fun truthy :: "pyval \<Rightarrow> bool" where
  "truthy (Scalar SNone) = False"
| "truthy (Scalar (SNum x)) = (x \<noteq> 0)"
| "truthy (Scalar (SStr s)) = (s \<noteq> [])"
| "truthy (PList xs) = (xs \<noteq> [])"
| "truthy (PDict d) = (d \<noteq> [])"

definition called :: "store_call \<Rightarrow> 's \<Rightarrow> 's manager \<Rightarrow> 's manager" where
  "called call s m = m\<lparr>animals := s, store_log := store_log m @ [call]\<rparr>"

definition print_exc :: "error \<Rightarrow> 's manager \<Rightarrow> 's manager" where
  "print_exc e m = m\<lparr>printed := printed m @ [e]\<rparr>"

definition create :: "'s collection \<Rightarrow> pyval \<Rightarrow> 's manager \<Rightarrow> (error + bool) \<times> 's manager" where
  "create c document m =
     (case nonempty_dict document of
        None \<Rightarrow> (Inl ValueError, m)
      | Some d \<Rightarrow>
          (case insert_one c d (animals m) of
             (Inl e, s) \<Rightarrow> (Inr False, print_exc e (called (InsertOne d) s m))
           | (Inr inserted_id, s) \<Rightarrow>
               (Inr (truthy inserted_id), clear_cache (called (InsertOne d) s m))))"

text \<open>
  The field names behind a projection (the identifier is left out), the key of a read,
  and the cursor options a read passes on: \<^verbatim>\<open>if sort:\<close> and \<^verbatim>\<open>if limit:\<close> skip an
  empty sort and a zero limit.
\<close>

definition projection_fields :: "pydict option \<Rightarrow> string list option" where
  "projection_fields projection =
     (case projection of None \<Rightarrow> None
      | Some p \<Rightarrow> Some (filter (\<lambda>k. k \<noteq> ''_id'') (map fst p)))"

definition read_key :: "pydict option \<Rightarrow> pydict option \<Rightarrow> cache_key" where
  "read_key query projection = cache_key (normalize_query query) (projection_fields projection)"

definition sort_param :: "sort_spec option \<Rightarrow> sort_spec option" where
  "sort_param sort_arg = (case sort_arg of None \<Rightarrow> None | Some s \<Rightarrow> if s = [] then None else Some s)"

definition limit_param :: "int \<Rightarrow> int option" where
  "limit_param limit = (if limit = 0 then None else Some limit)"

definition find_call :: "pydict option \<Rightarrow> pydict option \<Rightarrow> sort_spec option \<Rightarrow> int \<Rightarrow> store_call" where
  "find_call query projection sort_arg limit =
     Find (normalize_query query) projection (sort_param sort_arg) (limit_param limit)"

definition read ::
  "'s collection \<Rightarrow> pydict option \<Rightarrow> pydict option \<Rightarrow> sort_spec option \<Rightarrow> int \<Rightarrow> bool
     \<Rightarrow> 's manager \<Rightarrow> (error + animal list) \<times> 's manager" where
  "read c query projection sort_arg limit use_cache m =
     (let key = read_key query projection;
          call = find_call query projection sort_arg limit
      in case (if use_cache then cache_get m key else Inr None) of
           Inl e \<Rightarrow> (Inl e, m)
         | Inr (Some cached) \<Rightarrow> (Inr cached, m)
         | Inr None \<Rightarrow>
             (case find_list c (normalize_query query) projection (sort_param sort_arg)
                     (limit_param limit) (animals m) of
                (Inl e, s) \<Rightarrow> (Inr [], print_exc e (called call s m))
              | (Inr docs, s) \<Rightarrow>
                  if use_cache then
                    (case cache_set (called call s m) key docs of
                       Inl e \<Rightarrow> (Inr [], print_exc e (called call s m))
                     | Inr m' \<Rightarrow> (Inr docs, m'))
                  else (Inr docs, called call s m)))"

definition update ::
  "'s collection \<Rightarrow> pyval \<Rightarrow> pyval \<Rightarrow> 's manager \<Rightarrow> (error + nat) \<times> 's manager" where
  "update c query update_data m =
     (case nonempty_dict query of
        None \<Rightarrow> (Inl ValueError, m)
      | Some q \<Rightarrow>
          (case nonempty_dict update_data of
             None \<Rightarrow> (Inl ValueError, m)
           | Some u \<Rightarrow>
               (case update_many c q [(''$set'', PDict u)] (animals m) of
                  (Inl e, s) \<Rightarrow>
                    (Inr 0, print_exc e (called (UpdateMany q [(''$set'', PDict u)]) s m))
                | (Inr modified_count, s) \<Rightarrow>
                    (Inr modified_count,
                     clear_cache (called (UpdateMany q [(''$set'', PDict u)]) s m)))))"

definition delete ::
  "'s collection \<Rightarrow> pyval \<Rightarrow> 's manager \<Rightarrow> (error + nat) \<times> 's manager" where
  "delete c query m =
     (case nonempty_dict query of
        None \<Rightarrow> (Inl ValueError, m)
      | Some q \<Rightarrow>
          (case delete_many c q (animals m) of
             (Inl e, s) \<Rightarrow> (Inr 0, print_exc e (called (DeleteMany q) s m))
           | (Inr deleted_count, s) \<Rightarrow>
               (Inr deleted_count, clear_cache (called (DeleteMany q) s m))))"

section \<open>Evaluating a query on stored records\<close>

text \<open>
  What the collection does with a query is MongoDB's matching, not code of the
  repository. The evaluator below covers the query language the dashboard uses
  (section 6 of the specification): equality on a field, \<^verbatim>\<open>$in\<close> set membership,
  and the \<^verbatim>\<open>$gte\<close>/\<^verbatim>\<open>$lte\<close> range operators, over flat records. Equality with a
  value other than None needs the field to be present; a range operator compares
  values of the operand's type only. \<open>None\<close> is a query the evaluator does not cover.
\<close>

definition field_eq :: "scalar \<Rightarrow> scalar option \<Rightarrow> bool" where
  "field_eq v fv = (case fv of None \<Rightarrow> v = SNone | Some x \<Rightarrow> x = v)"

fun range_holds :: "bool \<Rightarrow> scalar \<Rightarrow> scalar option \<Rightarrow> bool" where
  "range_holds ge (SNum b) (Some (SNum x)) = (if ge then b \<le> x else x \<le> b)"
| "range_holds ge (SStr b) (Some (SStr x)) = (if ge then b \<le> x else x \<le> b)"
| "range_holds ge SNone None = True"
| "range_holds ge SNone (Some SNone) = True"
| "range_holds ge _ _ = False"

fun in_holds :: "pyval list \<Rightarrow> scalar option \<Rightarrow> bool" where
  "in_holds [] fv = False"
| "in_holds (Scalar s # vs) fv = (field_eq s fv \<or> in_holds vs fv)"
| "in_holds (_ # vs) fv = in_holds vs fv"

fun op_holds :: "string \<times> pyval \<Rightarrow> scalar option \<Rightarrow> bool option" where
  "op_holds (opr, arg) fv =
     (if opr = ''$in'' then (case arg of PList vs \<Rightarrow> Some (in_holds vs fv) | _ \<Rightarrow> None)
      else if opr = ''$gte'' then (case arg of Scalar b \<Rightarrow> Some (range_holds True b fv) | _ \<Rightarrow> None)
      else if opr = ''$lte'' then (case arg of Scalar b \<Rightarrow> Some (range_holds False b fv) | _ \<Rightarrow> None)
      else None)"

fun all_hold :: "bool option list \<Rightarrow> bool option" where
  "all_hold [] = Some True"
| "all_hold (None # bs) = None"
| "all_hold (Some b # bs) = (case all_hold bs of None \<Rightarrow> None | Some r \<Rightarrow> Some (b \<and> r))"

fun cond_holds :: "pyval \<Rightarrow> scalar option \<Rightarrow> bool option" where
  "cond_holds (Scalar s) fv = Some (field_eq s fv)"
| "cond_holds (PList vs) fv = Some False"
| "cond_holds (PDict ops) fv =
     (if ops = [] then Some False else all_hold (map (\<lambda>opr. op_holds opr fv) ops))"

definition matches :: "pydict \<Rightarrow> animal \<Rightarrow> bool option" where
  "matches q d =
     all_hold (map (\<lambda>(k, v). if take 1 k = ''$'' then None else cond_holds v (map_of d k)) q)"

definition mongo_find :: "pydict \<Rightarrow> animal list \<Rightarrow> error + animal list" where
  "mongo_find q docs =
     (if matches q [] = None then Inl (StoreError ''unsupported query'')
      else Inr (filter (\<lambda>d. matches q d = Some True) docs))"

subsection \<open>An in-memory collection\<close>

text \<open>
  A collection to run the manager against: the records are a list, every operation
  raises while the store is offline. It honours a limit, keeps whole records whatever
  the projection, and refuses a sort. It is used to run examples; the theorems about
  the manager hold for every collection.
\<close>

record mem_store =
  docs :: "animal list"
  online :: bool

fun scalar_items :: "pydict \<Rightarrow> animal option" where
  "scalar_items [] = Some []"
| "scalar_items ((k, Scalar s) # kvs) =
     (case scalar_items kvs of None \<Rightarrow> None | Some r \<Rightarrow> Some ((k, s) # r))"
| "scalar_items (_ # kvs) = None"

definition set_fields :: "animal \<Rightarrow> animal \<Rightarrow> animal" where
  "set_fields u d = foldl (\<lambda>d' (k, v). dict_set d' k v) d u"

definition offline :: error where
  "offline = StoreError ''connection refused''"

definition mem_coll :: "mem_store collection" where
  "mem_coll =
     \<lparr>insert_one = (\<lambda>d s.
        if \<not> online s then (Inl offline, s)
        else (case scalar_items d of
                None \<Rightarrow> (Inl (StoreError ''nested document''), s)
              | Some a \<Rightarrow> (Inr (Scalar (SNum (of_nat (Suc (length (docs s)))))),
                            s\<lparr>docs := docs s @ [a]\<rparr>))),
      find_list = (\<lambda>q p srt lim s.
        if \<not> online s then (Inl offline, s)
        else if srt \<noteq> None then (Inl (StoreError ''sort not supported''), s)
        else (case mongo_find q (docs s) of
                Inl e \<Rightarrow> (Inl e, s)
              | Inr ds \<Rightarrow> (Inr (case lim of None \<Rightarrow> ds | Some n \<Rightarrow> take (nat \<bar>n\<bar>) ds), s))),
      update_many = (\<lambda>q u s.
        if \<not> online s then (Inl offline, s)
        else (case (mongo_find q (docs s), u) of
                (Inr ds, [(opr, PDict kv)]) \<Rightarrow>
                  (case scalar_items kv of
                     Some a \<Rightarrow>
                       if opr = ''$set'' then
                         (Inr (length (filter (\<lambda>d. set_fields a d \<noteq> d) ds)),
                          s\<lparr>docs := map (\<lambda>d. if matches q d = Some True then set_fields a d else d)
                                        (docs s)\<rparr>)
                       else (Inl (StoreError ''unsupported update''), s)
                   | None \<Rightarrow> (Inl (StoreError ''nested document''), s))
              | _ \<Rightarrow> (Inl (StoreError ''unsupported update''), s))),
      delete_many = (\<lambda>q s.
        if \<not> online s then (Inl offline, s)
        else (case mongo_find q (docs s) of
                Inl e \<Rightarrow> (Inl e, s)
              | Inr ds \<Rightarrow> (Inr (length ds),
                            s\<lparr>docs := filter (\<lambda>d. matches q d \<noteq> Some True) (docs s)\<rparr>)))\<rparr>"

definition new_manager :: "'s \<Rightarrow> 's manager" where
  "new_manager s = \<lparr>animals = s, read_cache = Map.empty, store_log = [], printed = []\<rparr>"

section \<open>Tables\<close>

text \<open>
  A pandas DataFrame as the dashboard uses it: named columns and rows of cells. A cell
  holds a scalar or NaN, the marker pandas puts where a record has no value. Each row
  is an association list over the frame's columns.
\<close>

datatype cell = NaN | Obj scalar

type_synonym row = "(string \<times> cell) list"

record dataframe =
  columns :: "string list"
  rows :: "row list"

definition cell_at :: "row \<Rightarrow> string \<Rightarrow> cell" where
  "cell_at r c = (case map_of r c of None \<Rightarrow> NaN | Some v \<Rightarrow> v)"

definition column :: "dataframe \<Rightarrow> string \<Rightarrow> cell list" where
  "column df c = map (\<lambda>r. cell_at r c) (rows df)"

text \<open>Keys in order of first appearance.\<close>

fun first_seen :: "'a list \<Rightarrow> 'a list" where
  "first_seen [] = []"
| "first_seen (x # xs) = x # filter (\<lambda>y. y \<noteq> x) (first_seen xs)"

text \<open>
  \<^verbatim>\<open>pd.DataFrame.from_records(docs)\<close> on a list of dictionaries. \<open>from_records\<close>
  is the table of the records' values: one column for each key, NaN where a record has
  no value. pandas then settles the type of each column from the values it holds, which
  can turn a None into NaN (in a column of numbers, for one). That step is pandas' own
  and is a parameter, \<open>infer\<close>, from the cells of a column to the cells pandas keeps;
  \<open>keeps_values\<close> says what is known of it: it changes no cell but None, and None
  only into NaN.
\<close>

definition record_cell :: "animal \<Rightarrow> string \<Rightarrow> cell" where
  "record_cell d c = (case map_of d c of None \<Rightarrow> NaN | Some v \<Rightarrow> Obj v)"

definition from_records :: "animal list \<Rightarrow> dataframe" where
  "from_records ds =
     (let cols = first_seen (concat (map (map fst) ds))
      in \<lparr>columns = cols, rows = map (\<lambda>d. map (\<lambda>c. (c, record_cell d c)) cols) ds\<rparr>)"

definition infer_columns :: "(cell list \<Rightarrow> cell list) \<Rightarrow> dataframe \<Rightarrow> dataframe" where
  "infer_columns infer df =
     df\<lparr>rows := map (\<lambda>i. map (\<lambda>c. (c, infer (column df c) ! i)) (columns df))
                      [0..<length (rows df)]\<rparr>"

definition keeps_values :: "(cell list \<Rightarrow> cell list) \<Rightarrow> bool" where
  "keeps_values infer =
     (\<forall>xs. length (infer xs) = length xs \<and>
           (\<forall>i < length xs. infer xs ! i = xs ! i \<or> (xs ! i = Obj SNone \<and> infer xs ! i = NaN)))"

definition df_empty :: "dataframe \<Rightarrow> bool" where
  "df_empty df = (columns df = [] \<or> rows df = [])"

definition map_cell :: "(cell \<Rightarrow> cell) \<Rightarrow> string \<Rightarrow> row \<Rightarrow> row" where
  "map_cell f c r = map (\<lambda>(k, v). if k = c then (k, f v) else (k, v)) r"

definition map_column :: "(cell \<Rightarrow> cell) \<Rightarrow> string \<Rightarrow> dataframe \<Rightarrow> dataframe" where
  "map_column f c df = df\<lparr>rows := map (map_cell f c) (rows df)\<rparr>"

definition drop_column :: "string \<Rightarrow> dataframe \<Rightarrow> dataframe" where
  "drop_column c df =
     df\<lparr>columns := filter (\<lambda>k. k \<noteq> c) (columns df),
        rows := map (filter (\<lambda>(k, v). k \<noteq> c)) (rows df)\<rparr>"

subsection \<open>Cleaning\<close>

text \<open>
  Two conversions are pandas' own and are parameters here: \<open>parse\<close>, the reading of a
  string as a number by \<^verbatim>\<open>pd.to_numeric\<close> (\<open>None\<close> where the string is not a number),
  and \<open>fmt\<close>, the text \<^verbatim>\<open>astype(str)\<close> gives for a cell that is not a string.
  With \<^verbatim>\<open>errors='coerce'\<close> a value that is not a number becomes NaN.
\<close>

fun to_numeric :: "(string \<Rightarrow> real option) \<Rightarrow> cell \<Rightarrow> cell" where
  "to_numeric parse NaN = NaN"
| "to_numeric parse (Obj SNone) = NaN"
| "to_numeric parse (Obj (SNum x)) = Obj (SNum x)"
| "to_numeric parse (Obj (SStr s)) = (case parse s of None \<Rightarrow> NaN | Some x \<Rightarrow> Obj (SNum x))"

fun astype_str :: "(cell \<Rightarrow> string) \<Rightarrow> cell \<Rightarrow> string" where
  "astype_str fmt (Obj (SStr s)) = s"
| "astype_str fmt x = fmt x"

text \<open>
  \<^verbatim>\<open>str.strip()\<close> removes the leading and trailing characters for which
  \<^verbatim>\<open>str.isspace\<close> holds. A character here has a code point below 256; among those
  the whitespace ones are 9 to 13, 28 to 32, 133 (next line) and 160 (no-break space).
\<close>

definition is_space :: "char \<Rightarrow> bool" where
  "is_space ch = (of_char ch \<in> {9, 10, 11, 12, 13, 28, 29, 30, 31, 32, 133, 160 :: nat})"

definition strip :: "string \<Rightarrow> string" where
  "strip s = rev (dropWhile is_space (rev (dropWhile is_space s)))"

definition numeric_columns :: "string list" where
  "numeric_columns = [''age_upon_outcome_in_weeks'', ''location_lat'', ''location_long'']"

definition text_columns :: "string list" where
  "text_columns = [''name'', ''breed'', ''animal_type'', ''sex_upon_outcome'']"

definition apply_to_columns :: "(cell \<Rightarrow> cell) \<Rightarrow> string list \<Rightarrow> dataframe \<Rightarrow> dataframe" where
  "apply_to_columns f cs df =
     foldl (\<lambda>d c. if c \<in> set (columns d) then map_column f c d else d) df cs"

definition clean_df :: "(string \<Rightarrow> real option) \<Rightarrow> (cell \<Rightarrow> string) \<Rightarrow> dataframe \<Rightarrow> dataframe" where
  "clean_df parse fmt df =
     (if df_empty df then df
      else
        let df1 = (if ''_id'' \<in> set (columns df)
                   then drop_column ''_id''
                          (map_column (\<lambda>x. Obj (SStr (astype_str fmt x))) ''_id'' df)
                   else df);
            df2 = apply_to_columns (to_numeric parse) numeric_columns df1;
            df3 = apply_to_columns (\<lambda>x. Obj (SStr (strip (astype_str fmt x)))) text_columns df2
        in df3)"

definition read_df ::
  "'s collection \<Rightarrow> (cell list \<Rightarrow> cell list) \<Rightarrow> (string \<Rightarrow> real option) \<Rightarrow> (cell \<Rightarrow> string)
     \<Rightarrow> pydict option \<Rightarrow> string list option \<Rightarrow> bool \<Rightarrow> 's manager
     \<Rightarrow> (error + dataframe) \<times> 's manager" where
  "read_df c infer parse fmt query flds force_refresh m =
     (let projection = normalize_fields flds
      in case read c query projection None 0 (\<not> force_refresh) m of
           (Inl e, m') \<Rightarrow> (Inl e, m')
         | (Inr ds, m') \<Rightarrow>
             (Inr (clean_df parse fmt (infer_columns infer (from_records ds))), m'))"

section \<open>Filter rules\<close>

record filter_spec =
  breeds :: "string set"
  sex :: string
  age_min :: real
  age_max :: real

definition FILTER_SPECS :: "(string \<times> filter_spec) list" where
  "FILTER_SPECS =
     [(''WATER'',
       \<lparr>breeds = {''Labrador Retriever Mix'', ''Chesapeake Bay Retriever'', ''Newfoundland''},
        sex = ''Intact Female'', age_min = 26, age_max = 156\<rparr>),
      (''MOUNTAIN'',
       \<lparr>breeds = {''German Shepherd'', ''Alaskan Malamute'', ''Old English Sheepdog'',
                  ''Siberian Husky'', ''Rottweiler''},
        sex = ''Intact Male'', age_min = 26, age_max = 156\<rparr>),
      (''DISASTER'',
       \<lparr>breeds = {''Doberman Pinscher'', ''German Shepherd'', ''Golden Retriever'',
                  ''Bloodhound'', ''Rottweiler''},
        sex = ''Intact Male'', age_min = 20, age_max = 300\<rparr>)]"

definition spec_to_mongo_query :: "string \<Rightarrow> error + pydict" where
  "spec_to_mongo_query spec_key =
     (case map_of FILTER_SPECS spec_key of
        None \<Rightarrow> Inl KeyError
      | Some spec \<Rightarrow>
          Inr [(''animal_type'', Scalar (SStr ''Dog'')),
               (''breed'',
                PDict [(''$in'', PList (map (\<lambda>b. Scalar (SStr b))
                                          (sorted_list_of_set (breeds spec))))]),
               (''sex_upon_outcome'', Scalar (SStr (sex spec))),
               (''age_upon_outcome_in_weeks'',
                PDict [(''$gte'', Scalar (SNum (age_min spec))),
                       (''$lte'', Scalar (SNum (age_max spec)))])])"

text \<open>
  The comparisons of a column with a number. On a numeric column a missing value
  compares false; on a column of Python objects a string cannot be ordered against a
  number and the comparison raises \<open>TypeError\<close>.
\<close>

fun compare_cell :: "(real \<Rightarrow> bool) \<Rightarrow> cell \<Rightarrow> error + bool" where
  "compare_cell p NaN = Inr False"
| "compare_cell p (Obj SNone) = Inr False"
| "compare_cell p (Obj (SNum x)) = Inr (p x)"
| "compare_cell p (Obj (SStr s)) = Inl TypeError"

fun compare_column :: "(real \<Rightarrow> bool) \<Rightarrow> cell list \<Rightarrow> error + bool list" where
  "compare_column p [] = Inr []"
| "compare_column p (x # xs) =
     (case compare_cell p x of
        Inl e \<Rightarrow> Inl e
      | Inr b \<Rightarrow> (case compare_column p xs of Inl e \<Rightarrow> Inl e | Inr bs \<Rightarrow> Inr (b # bs)))"

definition isin :: "cell list \<Rightarrow> string set \<Rightarrow> bool list" where
  "isin xs S = map (\<lambda>x. case x of Obj (SStr s) \<Rightarrow> s \<in> S | _ \<Rightarrow> False) xs"

definition eq_str :: "cell list \<Rightarrow> string \<Rightarrow> bool list" where
  "eq_str xs s = map (\<lambda>x. x = Obj (SStr s)) xs"

definition and_mask :: "bool list \<Rightarrow> bool list \<Rightarrow> bool list" where
  "and_mask xs ys = map (\<lambda>(a, b). a \<and> b) (zip xs ys)"

definition loc :: "dataframe \<Rightarrow> bool list \<Rightarrow> dataframe" where
  "loc df msk = df\<lparr>rows := map fst (filter snd (zip (rows df) msk))\<rparr>"

definition apply_spec_filter :: "dataframe \<Rightarrow> string \<Rightarrow> error + dataframe" where
  "apply_spec_filter df spec_key =
     (case map_of FILTER_SPECS spec_key of
        None \<Rightarrow> Inl KeyError
      | Some spec \<Rightarrow>
          if \<not> {''breed'', ''sex_upon_outcome'', ''age_upon_outcome_in_weeks''} \<subseteq> set (columns df)
          then Inr (df\<lparr>rows := []\<rparr>)
          else
            let m1 = isin (column df ''breed'') (breeds spec);
                m2 = eq_str (column df ''sex_upon_outcome'') (sex spec)
            in (case compare_column (\<lambda>x. age_min spec \<le> x)
                         (column df ''age_upon_outcome_in_weeks'') of
                  Inl e \<Rightarrow> Inl e
                | Inr m3 \<Rightarrow>
                    (case compare_column (\<lambda>x. x \<le> age_max spec)
                            (column df ''age_upon_outcome_in_weeks'') of
                       Inl e \<Rightarrow> Inl e
                     | Inr m4 \<Rightarrow> Inr (loc df (and_mask (and_mask (and_mask m1 m2) m3) m4)))))"

text \<open>
  The records the query of a rule selects from a list of stored documents: what the
  collection returns for \<^verbatim>\<open>find(spec_to_mongo_query(name))\<close>.
\<close>

definition select_by_query :: "string \<Rightarrow> animal list \<Rightarrow> error + animal list" where
  "select_by_query spec_key ds =
     (case spec_to_mongo_query spec_key of Inl e \<Rightarrow> Inl e | Inr q \<Rightarrow> mongo_find q ds)"

section \<open>Example data\<close>

text \<open>
  Two records (the ones of the specification's example), a shelter holding them, the
  same shelter while the server cannot be reached, and a few arguments and queries.
\<close>

definition newfoundland :: animal where
  "newfoundland = [(''breed'', SStr ''Newfoundland''), (''sex_upon_outcome'', SStr ''Intact Female''),
                   (''age_upon_outcome_in_weeks'', SNum 100)]"

definition poodle :: animal where
  "poodle = [(''breed'', SStr ''Poodle''), (''sex_upon_outcome'', SStr ''Intact Female''),
             (''age_upon_outcome_in_weeks'', SNum 100)]"

definition shelter :: mem_store where
  "shelter = \<lparr>docs = [newfoundland, poodle], online = True\<rparr>"

definition unreachable :: mem_store where
  "unreachable = \<lparr>docs = [newfoundland, poodle], online = False\<rparr>"

definition rex :: pydict where
  "rex = [(''name'', Scalar (SStr ''Rex''))]"

definition by_breed_and_sex :: pydict where
  "by_breed_and_sex = [(''breed'', Scalar (SStr ''Poodle'')),
                       (''sex_upon_outcome'', Scalar (SStr ''Intact Female''))]"

definition by_sex_and_breed :: pydict where
  "by_sex_and_breed = [(''sex_upon_outcome'', Scalar (SStr ''Intact Female'')),
                       (''breed'', Scalar (SStr ''Poodle''))]"

definition breed_in :: pydict where
  "breed_in = [(''breed'', PDict [(''$in'', PList [Scalar (SStr ''Poodle'')])])]"



text \<open>Records for the filter rules: a dog, a cat, and a record whose age is a text.\<close>

definition newfoundland_dog :: animal where
  "newfoundland_dog = (''animal_type'', SStr ''Dog'') # newfoundland"

definition newfoundland_cat :: animal where
  "newfoundland_cat = (''animal_type'', SStr ''Cat'') # newfoundland"

definition unknown_age :: animal where
  "unknown_age = [(''breed'', SStr ''Newfoundland''), (''sex_upon_outcome'', SStr ''Intact Female''),
                  (''age_upon_outcome_in_weeks'', SStr ''unknown'')]"

text \<open>
  Records for the cleaning: one with a weight, and one with padded text, a text for an
  age, a latitude written as text and no weight (None).
\<close>

definition weighed :: animal where
  "weighed = (''weight'', SNum 40) # newfoundland"

definition stray :: animal where
  "stray = [(''weight'', SNone), (''breed'', SStr '' Poodle ''),
            (''age_upon_outcome_in_weeks'', SStr ''unknown''), (''location_lat'', SStr ''30'')]"

definition pound :: mem_store where
  "pound = \<lparr>docs = [weighed, stray], online = True\<rparr>"

text \<open>
  An inference to run the cleaning with: a column that holds no text and is not None
  throughout becomes numeric, its None values NaN; any other column is kept.
\<close>

definition infer_objects :: "cell list \<Rightarrow> cell list" where
  "infer_objects xs =
     (if list_ex (\<lambda>x. case x of Obj (SStr s) \<Rightarrow> True | _ \<Rightarrow> False) xs \<or>
         list_all (\<lambda>x. x = Obj SNone) xs
      then xs else map (\<lambda>x. if x = Obj SNone then NaN else x) xs)"

text \<open>
  A reader of numbers to run the cleaning with: it accepts unsigned decimal integers
  and nothing else.
\<close>

definition parse_digits :: "string \<Rightarrow> real option" where
  "parse_digits s =
     (if s \<noteq> [] \<and> list_all (\<lambda>ch. ch \<in> set ''0123456789'') s
      then Some (of_nat (foldl (\<lambda>n ch. 10 * n + (of_char ch - 48)) 0 s))
      else None)"

section \<open>Properties of the manager\<close>

subsection \<open>Reading through the cache\<close>

lemma hashable_key_cache_key:
  "hashable_key (cache_key q f) = (\<forall>(k, v) \<in> set q. hashable v)"
  by (simp add: hashable_key_def cache_key_def list_all_iff)

lemma read_hit:
  assumes "hashable_key (read_key q p)" and "read_cache m (read_key q p) = Some ds"
  shows "read c q p srt l True m = (Inr ds, m)"
  using assms by (simp add: read_def Let_def cache_get_def)

lemma read_unhashable:
  assumes "\<not> hashable_key (read_key q p)"
  shows "read c q p srt l True m = (Inl TypeError, m)"
  using assms by (simp add: read_def Let_def cache_get_def)

lemma read_miss_ok:
  assumes "hashable_key (read_key q p)" and "read_cache m (read_key q p) = None"
    and "find_list c (normalize_query q) p (sort_param srt) (limit_param l) (animals m) = (Inr ds, s)"
  shows "read c q p srt l True m =
           (Inr ds, (called (find_call q p srt l) s m)\<lparr>read_cache := (read_cache m)(read_key q p \<mapsto> ds)\<rparr>)"
  using assms by (simp add: read_def Let_def cache_get_def cache_set_def called_def)

lemma read_uncached:
  "read c q p srt l False m =
     (case find_list c (normalize_query q) p (sort_param srt) (limit_param l) (animals m) of
        (Inl e, s) \<Rightarrow> (Inr [], print_exc e (called (find_call q p srt l) s m))
      | (Inr ds, s) \<Rightarrow> (Inr ds, called (find_call q p srt l) s m))"
  by (simp add: read_def Let_def split: prod.splits sum.splits)


subsection \<open>Argument validation\<close>

text \<open>
  Claim C7. \<open>create\<close>, \<open>update\<close> and \<open>delete\<close> raise \<open>ValueError\<close> exactly when
  a required argument is not a dictionary or is an empty one (for \<open>update\<close>: the query
  or the update data), and then the manager is left as it was: the store is not
  called, nothing is logged, the cache is untouched.
\<close>

theorem validation_raises_before_store:
  "((fst (create c document m) = Inl ValueError) = (nonempty_dict document = None)) \<and>
   ((fst (update c query patch m) = Inl ValueError)
      = (nonempty_dict query = None \<or> nonempty_dict patch = None)) \<and>
   ((fst (delete c query m) = Inl ValueError) = (nonempty_dict query = None)) \<and>
   (nonempty_dict document = None \<longrightarrow> snd (create c document m) = m) \<and>
   (nonempty_dict query = None \<or> nonempty_dict patch = None
      \<longrightarrow> snd (update c query patch m) = m) \<and>
   (nonempty_dict query = None \<longrightarrow> snd (delete c query m) = m)"
  by (auto simp: create_def update_def delete_def split: option.splits prod.splits sum.splits)

theorem validation_raises_before_store_witness:
  "create mem_coll (Scalar SNone) (new_manager shelter) = (Inl ValueError, new_manager shelter) \<and>
   create mem_coll (PDict []) (new_manager shelter) = (Inl ValueError, new_manager shelter) \<and>
   update mem_coll (PDict []) (PDict rex) (new_manager shelter)
     = (Inl ValueError, new_manager shelter) \<and>
   update mem_coll (PDict rex) (PList []) (new_manager shelter)
     = (Inl ValueError, new_manager shelter) \<and>
   delete mem_coll (Scalar (SStr ''all'')) (new_manager shelter)
     = (Inl ValueError, new_manager shelter) \<and>
   fst (create mem_coll (PDict rex) (new_manager shelter)) = Inr True"
  using validation_raises_before_store [of mem_coll "Scalar SNone" "new_manager shelter"
          "PDict []" "PDict rex"]
        validation_raises_before_store [of mem_coll "PDict []" "new_manager shelter"
          "PDict rex" "PList []"]
        validation_raises_before_store [of mem_coll "PDict []" "new_manager shelter"
          "Scalar (SStr ''all'')" "PDict []"]
  by (simp add: prod_eq_iff create_def mem_coll_def new_manager_def shelter_def called_def
        clear_cache_def rex_def)

subsection \<open>Faults of the store\<close>

text \<open>
  Claim C4. When the call to the collection raises, each operation catches the
  exception, prints it and returns its neutral value: \<open>False\<close> for \<open>create\<close>, the
  empty list for \<open>read\<close>, \<open>0\<close> for \<open>update\<close> and \<open>delete\<close>. The result is a
  returned value (\<open>Inr\<close>), never a raised exception. A read reaches the collection
  when caching is off or the key is not cached.
\<close>

theorem store_faults_are_swallowed:
  "(d \<noteq> [] \<and> insert_one c d (animals m) = (Inl e, s)
      \<longrightarrow> create c (PDict d) m = (Inr False, print_exc e (called (InsertOne d) s m))) \<and>
   ((use_cache \<longrightarrow> cache_get m (read_key q p) = Inr None) \<and>
    find_list c (normalize_query q) p (sort_param srt) (limit_param l) (animals m) = (Inl e, s)
      \<longrightarrow> read c q p srt l use_cache m = (Inr [], print_exc e (called (find_call q p srt l) s m))) \<and>
   (d \<noteq> [] \<and> u \<noteq> [] \<and> update_many c d [(''$set'', PDict u)] (animals m) = (Inl e, s)
      \<longrightarrow> update c (PDict d) (PDict u) m
            = (Inr 0, print_exc e (called (UpdateMany d [(''$set'', PDict u)]) s m))) \<and>
   (d \<noteq> [] \<and> delete_many c d (animals m) = (Inl e, s)
      \<longrightarrow> delete c (PDict d) m = (Inr 0, print_exc e (called (DeleteMany d) s m)))"
  by (simp add: create_def read_def update_def delete_def Let_def)

theorem store_faults_are_swallowed_witness:
  "fst (create mem_coll (PDict rex) (new_manager unreachable)) = Inr False \<and>
   fst (read mem_coll None None None 0 True (new_manager unreachable)) = Inr [] \<and>
   fst (read mem_coll None None None 0 False (new_manager unreachable)) = Inr [] \<and>
   fst (update mem_coll (PDict by_breed_and_sex) (PDict rex) (new_manager unreachable)) = Inr 0 \<and>
   fst (delete mem_coll (PDict rex) (new_manager unreachable)) = Inr 0 \<and>
   printed (snd (delete mem_coll (PDict rex) (new_manager unreachable))) = [offline]"
  using store_faults_are_swallowed [where c = mem_coll and m = "new_manager unreachable"
          and d = rex and u = rex and e = offline and s = unreachable and use_cache = True
          and q = None and p = None and srt = None and l = 0]
        store_faults_are_swallowed [where c = mem_coll and m = "new_manager unreachable"
          and d = by_breed_and_sex and u = rex and e = offline and s = unreachable
          and use_cache = False and q = None and p = None and srt = None and l = 0]
  by (simp add: mem_coll_def new_manager_def unreachable_def rex_def by_breed_and_sex_def
        cache_get_def read_key_def cache_key_def hashable_key_def normalize_query_def
        projection_fields_def print_exc_def called_def)

subsection \<open>Queries that cannot be hashed\<close>

text \<open>
  Claim C9. If some value of the query is a list or a dictionary, a read with caching
  enabled raises \<open>TypeError\<close> at the cache lookup: the manager is unchanged, so the
  collection was not called and nothing was printed. With caching disabled the same
  read does not raise: it calls the collection once and returns a list.
\<close>

theorem unhashable_query_raises:
  assumes "(k, v) \<in> set q" and "\<not> hashable v"
  shows "read c (Some q) p srt l True m = (Inl TypeError, m) \<and>
         (\<exists>r. fst (read c (Some q) p srt l False m) = Inr r) \<and>
         store_log (snd (read c (Some q) p srt l False m)) = store_log m @ [find_call (Some q) p srt l]"
proof -
  have "\<not> hashable_key (read_key (Some q) p)"
    using assms by (auto simp: read_key_def normalize_query_def hashable_key_cache_key)
  then have "read c (Some q) p srt l True m = (Inl TypeError, m)"
    by (rule read_unhashable)
  moreover have "\<exists>r. fst (read c (Some q) p srt l False m) = Inr r"
    by (simp add: read_uncached split: prod.splits sum.splits)
  moreover have "store_log (snd (read c (Some q) p srt l False m))
                   = store_log m @ [find_call (Some q) p srt l]"
    by (simp add: read_uncached called_def print_exc_def split: prod.splits sum.splits)
  ultimately show ?thesis by blast
qed

theorem unhashable_query_raises_witness:
  "fst (read mem_coll (Some breed_in) None None 0 True (new_manager shelter)) = Inl TypeError \<and>
   store_log (snd (read mem_coll (Some breed_in) None None 0 True (new_manager shelter))) = [] \<and>
   fst (read mem_coll (Some breed_in) None None 0 False (new_manager shelter)) = Inr [poodle] \<and>
   store_log (snd (read mem_coll (Some breed_in) None None 0 False (new_manager shelter)))
     = [Find breed_in None None None]"
proof -
  have h: "fst (read mem_coll (Some breed_in) None None 0 False (new_manager shelter)) = Inr [poodle]"
    by code_simp
  show ?thesis
    using h unhashable_query_raises [where q = breed_in and k = "''breed''"
            and v = "PDict [(''$in'', PList [Scalar (SStr ''Poodle'')])]"
            and c = mem_coll and p = None and srt = None and l = 0 and m = "new_manager shelter"]
    by (simp add: breed_in_def new_manager_def find_call_def normalize_query_def sort_param_def
          limit_param_def)
qed

subsection \<open>What the cache key leaves out\<close>

lemma first_read: "fst (read mem_coll None None None 0 True (new_manager shelter)) = Inr [newfoundland, poodle]"
  by code_simp

lemma first_read_cache: "read_cache (snd (read mem_coll None None None 0 True (new_manager shelter))) (read_key None None) = Some [newfoundland, poodle]"
  by code_simp

text \<open>
  Claim C10. The key of a read is made of the query and the projected field names;
  the sort and the limit are not part of it. So whenever a read with caching enabled
  has returned a list and left its key cached, the cached list is the one returned,
  and a later read of the same query and projection returns that list whatever sort
  and limit either call asked for, leaving the manager as it is: the collection is not
  called.
\<close>

theorem cache_ignores_sort_and_limit:
  assumes "read c q p s1 l1 True m = (Inr r, m1)"
    and "read_cache m1 (read_key q p) = Some ds"
  shows "r = ds \<and> read c q p s2 l2 True m1 = (Inr ds, m1)"
proof (cases "hashable_key (read_key q p)")
  case False
  then show ?thesis using assms(1) by (simp add: read_unhashable)
next
  case True
  have "r = ds"
    using assms True
    by (auto simp: read_def Let_def cache_get_def cache_set_def called_def print_exc_def
             split: option.splits prod.splits sum.splits)
  then show ?thesis using True assms(2) by (simp add: read_hit)
qed

theorem cache_ignores_sort_and_limit_witness:
  "fst (read mem_coll None None None 0 True (new_manager shelter)) = Inr [newfoundland, poodle] \<and>
   fst (read mem_coll None None (Some [(''age_upon_outcome_in_weeks'', 1)]) 1 True
          (snd (read mem_coll None None None 0 True (new_manager shelter))))
     = Inr [newfoundland, poodle] \<and>
   store_log (snd (read mem_coll None None (Some [(''age_upon_outcome_in_weeks'', 1)]) 1 True
                     (snd (read mem_coll None None None 0 True (new_manager shelter)))))
     = [Find [] None None None]"
proof -
  have h1: "read mem_coll None None None 0 True (new_manager shelter)
              = (Inr [newfoundland, poodle], snd (read mem_coll None None None 0 True (new_manager shelter)))"
    by (simp add: prod_eq_iff first_read)
  have h3: "store_log (snd (read mem_coll None None None 0 True (new_manager shelter))) = [Find [] None None None]"
    by code_simp
  show ?thesis
    using h3 cache_ignores_sort_and_limit [OF h1 first_read_cache,
            of "Some [(''age_upon_outcome_in_weeks'', 1)]" 1]
    by (simp add: first_read)
qed

subsection \<open>Equal queries, one cache entry\<close>

text \<open>
  Two dictionaries with the same items have the same sorted items, and two projections
  with the same sorted field names give the same field part, so the reads have one key.
\<close>

lemma sort_key_fst_unique:
  assumes "distinct (map fst q1)" and "distinct (map fst q2)" and "set q1 = set q2"
  shows "sort_key fst q1 = sort_key fst q2"
proof (rule map_sorted_distinct_set_unique [where f = fst])
  show "inj_on fst (set (sort_key fst q1) \<union> set (sort_key fst q2))"
    using assms by (simp add: distinct_map)
qed (use assms in \<open>simp_all add: distinct_map\<close>)

lemma read_key_eq:
  assumes "distinct (map fst q1)" and "distinct (map fst q2)" and "set q1 = set q2"
    and "map_option sort (projection_fields p1) = map_option sort (projection_fields p2)"
  shows "read_key (Some q1) p1 = read_key (Some q2) p2"
proof -
  have "sort_key fst q1 = sort_key fst q2" using assms(1-3) by (rule sort_key_fst_unique)
  moreover have "(case projection_fields p1 of None \<Rightarrow> None | Some fs \<Rightarrow> if fs = [] then None else Some (sort fs))
      = (case projection_fields p2 of None \<Rightarrow> None | Some fs \<Rightarrow> if fs = [] then None else Some (sort fs))"
    using assms(4) by (cases "projection_fields p1"; cases "projection_fields p2"; auto dest: arg_cong[where f = set])
  ultimately show ?thesis by (simp add: read_key_def cache_key_def normalize_query_def)
qed

text \<open>
  Claim C2. The claim holds for queries whose values can be hashed and when the
  collection answers the first read: for two queries with the same items (in any
  order) and projections with the same field names, the first read with caching
  enabled returns a list and caches it, and the second read returns that list and
  leaves the manager unchanged, so no second call reaches the collection. Without
  the two conditions it fails: a query holding a list or a dictionary raises (C9),
  and the empty list returned after a fault is not cached.
\<close>

theorem equal_queries_share_cache_entry:
  assumes "distinct (map fst q1)" and "distinct (map fst q2)" and "set q1 = set q2"
    and "map_option sort (projection_fields p1) = map_option sort (projection_fields p2)"
    and "\<forall>(k, v) \<in> set q1. hashable v"
    and "read_cache m (read_key (Some q1) p1) = None \<longrightarrow>
           (\<exists>ds s. find_list c q1 p1 (sort_param s1) (limit_param l1) (animals m) = (Inr ds, s))"
  shows "\<exists>ds m1. read c (Some q1) p1 s1 l1 True m = (Inr ds, m1) \<and>
                 read_cache m1 (read_key (Some q1) p1) = Some ds \<and>
                 read c (Some q2) p2 s2 l2 True m1 = (Inr ds, m1)"
proof -
  have k: "read_key (Some q1) p1 = read_key (Some q2) p2"
    using assms(1-4) by (rule read_key_eq)
  have h: "hashable_key (read_key (Some q1) p1)"
    using assms(5) by (simp add: read_key_def normalize_query_def hashable_key_cache_key)
  show ?thesis
  proof (cases "read_cache m (read_key (Some q1) p1)")
    case (Some ds)
    have "read c (Some q1) p1 s1 l1 True m = (Inr ds, m)" using h Some by (rule read_hit)
    moreover have "read c (Some q2) p2 s2 l2 True m = (Inr ds, m)"
      using h Some unfolding k by (rule read_hit)
    ultimately show ?thesis using Some by blast
  next
    case None
    then obtain ds s where f: "find_list c (normalize_query (Some q1)) p1 (sort_param s1) (limit_param l1) (animals m) = (Inr ds, s)"
      using assms(6) by (auto simp: normalize_query_def)
    let ?m1 = "(called (find_call (Some q1) p1 s1 l1) s m)\<lparr>read_cache := (read_cache m)(read_key (Some q1) p1 \<mapsto> ds)\<rparr>"
    have r1: "read c (Some q1) p1 s1 l1 True m = (Inr ds, ?m1)"
      using h None f by (rule read_miss_ok)
    have c1: "read_cache ?m1 (read_key (Some q1) p1) = Some ds" by simp
    have "read c (Some q2) p2 s2 l2 True ?m1 = (Inr ds, ?m1)"
      using h c1 unfolding k by (rule read_hit)
    then show ?thesis using r1 c1 by blast
  qed
qed

theorem equal_queries_share_cache_entry_witness:
  "fst (read mem_coll (Some by_breed_and_sex) None None 0 True (new_manager shelter)) = Inr [poodle] \<and>
   fst (read mem_coll (Some by_sex_and_breed) None None 0 True
          (snd (read mem_coll (Some by_breed_and_sex) None None 0 True (new_manager shelter))))
     = Inr [poodle] \<and>
   store_log (snd (read mem_coll (Some by_sex_and_breed) None None 0 True
                     (snd (read mem_coll (Some by_breed_and_sex) None None 0 True (new_manager shelter)))))
     = [Find by_breed_and_sex None None None]"
proof -
  let ?m = "new_manager shelter"
  have f: "find_list mem_coll by_breed_and_sex None (sort_param None) (limit_param 0) (animals ?m)
             = (Inr [poodle], shelter)"
    by code_simp
  have r: "fst (read mem_coll (Some by_breed_and_sex) None None 0 True ?m) = Inr [poodle]"
    by code_simp
  have l: "store_log (snd (read mem_coll (Some by_breed_and_sex) None None 0 True ?m))
             = [Find by_breed_and_sex None None None]"
    by code_simp
  obtain ds m1 where
    "read mem_coll (Some by_breed_and_sex) None None 0 True ?m = (Inr ds, m1)" and
    "read mem_coll (Some by_sex_and_breed) None None 0 True m1 = (Inr ds, m1)"
    using equal_queries_share_cache_entry [where ?q1.0 = by_breed_and_sex and ?q2.0 = by_sex_and_breed
            and ?p1.0 = None and ?p2.0 = None and m = ?m and c = mem_coll
            and ?s1.0 = None and ?l1.0 = 0 and ?s2.0 = None and ?l2.0 = 0] f
    by (auto simp: by_breed_and_sex_def by_sex_and_breed_def)
  then show ?thesis using r l by simp
qed

text \<open>
  While the server cannot be reached the first read returns the empty list, caches
  nothing, and the second read calls the collection again.
\<close>

theorem failed_read_is_not_cached:
  "fst (read mem_coll (Some by_breed_and_sex) None None 0 True (new_manager unreachable)) = Inr [] \<and>
   read_cache (snd (read mem_coll (Some by_breed_and_sex) None None 0 True (new_manager unreachable)))
     (read_key (Some by_breed_and_sex) None) = None \<and>
   store_log (snd (read mem_coll (Some by_sex_and_breed) None None 0 True
                (snd (read mem_coll (Some by_breed_and_sex) None None 0 True (new_manager unreachable)))))
     = [Find by_breed_and_sex None None None, Find by_sex_and_breed None None None]"
  by code_simp

subsection \<open>Invalidation\<close>




section \<open>Properties of the filter rules\<close>

subsection \<open>The query of a rule\<close>

lemma water_query:
  "spec_to_mongo_query ''WATER'' =
     Inr [(''animal_type'', Scalar (SStr ''Dog'')),
          (''breed'', PDict [(''$in'', PList [Scalar (SStr ''Chesapeake Bay Retriever''),
                                              Scalar (SStr ''Labrador Retriever Mix''),
                                              Scalar (SStr ''Newfoundland'')])]),
          (''sex_upon_outcome'', Scalar (SStr ''Intact Female'')),
          (''age_upon_outcome_in_weeks'',
           PDict [(''$gte'', Scalar (SNum 26)), (''$lte'', Scalar (SNum 156))])]"
  by code_simp

lemma mountain_query:
  "spec_to_mongo_query ''MOUNTAIN'' =
     Inr [(''animal_type'', Scalar (SStr ''Dog'')),
          (''breed'', PDict [(''$in'', PList [Scalar (SStr ''Alaskan Malamute''),
                                              Scalar (SStr ''German Shepherd''),
                                              Scalar (SStr ''Old English Sheepdog''),
                                              Scalar (SStr ''Rottweiler''),
                                              Scalar (SStr ''Siberian Husky'')])]),
          (''sex_upon_outcome'', Scalar (SStr ''Intact Male'')),
          (''age_upon_outcome_in_weeks'',
           PDict [(''$gte'', Scalar (SNum 26)), (''$lte'', Scalar (SNum 156))])]"
  by code_simp

lemma disaster_query:
  "spec_to_mongo_query ''DISASTER'' =
     Inr [(''animal_type'', Scalar (SStr ''Dog'')),
          (''breed'', PDict [(''$in'', PList [Scalar (SStr ''Bloodhound''),
                                              Scalar (SStr ''Doberman Pinscher''),
                                              Scalar (SStr ''German Shepherd''),
                                              Scalar (SStr ''Golden Retriever''),
                                              Scalar (SStr ''Rottweiler'')])]),
          (''sex_upon_outcome'', Scalar (SStr ''Intact Male'')),
          (''age_upon_outcome_in_weeks'',
           PDict [(''$gte'', Scalar (SNum 20)), (''$lte'', Scalar (SNum 300))])]"
  by code_simp

lemma registered_names:
  "(map_of FILTER_SPECS k = None) = (k \<notin> {''WATER'', ''MOUNTAIN'', ''DISASTER''})"
  by (simp add: FILTER_SPECS_def)

lemma registered_finite:
  assumes "map_of FILTER_SPECS k = Some spec"
  shows "finite (breeds spec)"
  using assms by (auto simp: FILTER_SPECS_def split: if_splits)

text \<open>
  Claim C6. \<open>spec_to_mongo_query\<close> raises \<open>KeyError\<close> exactly for the names
  other than the three registered ones. For a registered rule the query is: the
  animal type equal to Dog, the breed among the rule's breeds, given as a sorted list
  without repetition, the rule's sex, and the age between the rule's bounds, both
  included.
\<close>

theorem spec_to_mongo_query_exact:
  "((spec_to_mongo_query k = Inl KeyError) = (k \<notin> {''WATER'', ''MOUNTAIN'', ''DISASTER''})) \<and>
   (map_of FILTER_SPECS k = Some spec \<longrightarrow>
      (\<exists>bs. sorted bs \<and> distinct bs \<and> set bs = breeds spec \<and>
            spec_to_mongo_query k =
              Inr [(''animal_type'', Scalar (SStr ''Dog'')),
                   (''breed'', PDict [(''$in'', PList (map (\<lambda>b. Scalar (SStr b)) bs))]),
                   (''sex_upon_outcome'', Scalar (SStr (sex spec))),
                   (''age_upon_outcome_in_weeks'',
                    PDict [(''$gte'', Scalar (SNum (age_min spec))),
                           (''$lte'', Scalar (SNum (age_max spec)))])]))"
proof -
  have a: "(spec_to_mongo_query k = Inl KeyError) = (map_of FILTER_SPECS k = None)"
    by (simp add: spec_to_mongo_query_def split: option.splits)
  have b: "\<exists>bs. sorted bs \<and> distinct bs \<and> set bs = breeds spec \<and>
            spec_to_mongo_query k =
              Inr [(''animal_type'', Scalar (SStr ''Dog'')),
                   (''breed'', PDict [(''$in'', PList (map (\<lambda>b. Scalar (SStr b)) bs))]),
                   (''sex_upon_outcome'', Scalar (SStr (sex spec))),
                   (''age_upon_outcome_in_weeks'',
                    PDict [(''$gte'', Scalar (SNum (age_min spec))),
                           (''$lte'', Scalar (SNum (age_max spec)))])]"
    if h: "map_of FILTER_SPECS k = Some spec"
  proof (intro exI conjI)
    show "sorted (sorted_list_of_set (breeds spec))" by simp
    show "distinct (sorted_list_of_set (breeds spec))" by simp
    show "set (sorted_list_of_set (breeds spec)) = breeds spec"
      using registered_finite [OF h] by simp
    show "spec_to_mongo_query k =
              Inr [(''animal_type'', Scalar (SStr ''Dog'')),
                   (''breed'', PDict [(''$in'', PList (map (\<lambda>b. Scalar (SStr b)) (sorted_list_of_set (breeds spec))))]),
                   (''sex_upon_outcome'', Scalar (SStr (sex spec))),
                   (''age_upon_outcome_in_weeks'',
                    PDict [(''$gte'', Scalar (SNum (age_min spec))),
                           (''$lte'', Scalar (SNum (age_max spec)))])]"
      using h by (simp add: spec_to_mongo_query_def)
  qed
  show ?thesis
    by (rule conjI, rule trans [OF a registered_names], rule impI, erule b)
qed

theorem spec_to_mongo_query_exact_witness:
  "spec_to_mongo_query ''RESET'' = Inl KeyError \<and>
   (\<exists>bs. sorted bs \<and> distinct bs \<and>
         set bs = {''Labrador Retriever Mix'', ''Chesapeake Bay Retriever'', ''Newfoundland''} \<and>
         spec_to_mongo_query ''WATER'' =
           Inr [(''animal_type'', Scalar (SStr ''Dog'')),
                (''breed'', PDict [(''$in'', PList (map (\<lambda>b. Scalar (SStr b)) bs))]),
                (''sex_upon_outcome'', Scalar (SStr ''Intact Female'')),
                (''age_upon_outcome_in_weeks'',
                 PDict [(''$gte'', Scalar (SNum 26)), (''$lte'', Scalar (SNum 156))])])"
  using spec_to_mongo_query_exact [of "''RESET''"]
        spec_to_mongo_query_exact [of "''WATER''"
          "\<lparr>breeds = {''Labrador Retriever Mix'', ''Chesapeake Bay Retriever'', ''Newfoundland''},
            sex = ''Intact Female'', age_min = 26, age_max = 156\<rparr>"]
  by (simp add: FILTER_SPECS_def)

subsection \<open>The two ways of applying a rule\<close>

text \<open>
  Claim C1. The query and the in-memory mask do not select the same records. The
  query requires the animal type to be Dog (``all three searches are for dogs''), the
  mask does not look at the animal type. On the two records of the specification's
  example, which have no animal type, the query selects nothing and the mask selects
  the Newfoundland. For a dog and a cat that agree otherwise, the query selects the
  dog, the mask both.
\<close>

theorem filter_paths_differ:
  "select_by_query ''WATER'' [newfoundland, poodle] = Inr [] \<and>
   apply_spec_filter (from_records [newfoundland, poodle]) ''WATER'' = Inr (from_records [newfoundland]) \<and>
   select_by_query ''WATER'' [newfoundland_dog, newfoundland_cat] = Inr [newfoundland_dog] \<and>
   apply_spec_filter (from_records [newfoundland_dog, newfoundland_cat]) ''WATER''
     = Inr (from_records [newfoundland_dog, newfoundland_cat])"
  by code_simp

subsection \<open>The in-memory mask\<close>

lemma compare_column_numeric:
  assumes "\<forall>x \<in> set xs. \<forall>s. x \<noteq> Obj (SStr s)"
  shows "compare_column p xs = Inr (map (\<lambda>x. \<exists>v. x = Obj (SNum v) \<and> p v) xs)"
  using assms
proof (induction xs)
  case Nil
  show ?case by simp
next
  case (Cons x xs)
  have "compare_cell p x = Inr (\<exists>v. x = Obj (SNum v) \<and> p v)"
    using Cons.prems by (cases "(p, x)" rule: compare_cell.cases) auto
  then show ?case using Cons by simp
qed

lemma compare_column_string:
  assumes "Obj (SStr s) \<in> set xs"
  shows "compare_column p xs = Inl TypeError"
  using assms
proof (induction xs)
  case Nil
  then show ?case by simp
next
  case (Cons x xs)
  show ?case
  proof (cases "x = Obj (SStr s)")
    case True
    then show ?thesis by simp
  next
    case False
    then have "compare_column p xs = Inl TypeError" using Cons by simp
    then show ?thesis by (cases "(p, x)" rule: compare_cell.cases) auto
  qed
qed

lemma loc_map: "loc df (map f (rows df)) = df\<lparr>rows := filter f (rows df)\<rparr>"
proof -
  have "map fst (filter snd (zip xs (map f xs))) = filter f xs" for xs :: "row list"
    by (induction xs) auto
  then show ?thesis by (simp add: loc_def)
qed

lemma and_mask_map: "and_mask (map f xs) (map g xs) = map (\<lambda>x. f x \<and> g x) xs"
  by (induction xs) (auto simp: and_mask_def)

lemma isin_column:
  "isin (column df c) S = map (\<lambda>r. \<exists>s \<in> S. cell_at r c = Obj (SStr s)) (rows df)"
  by (auto simp: isin_def column_def split: cell.splits scalar.splits)

lemma eq_str_column:
  "eq_str (column df c) s = map (\<lambda>r. cell_at r c = Obj (SStr s)) (rows df)"
  by (simp add: eq_str_def column_def)

lemma compare_column_column:
  assumes "\<forall>r \<in> set (rows df). \<forall>s. cell_at r c \<noteq> Obj (SStr s)"
  shows "compare_column p (column df c)
           = Inr (map (\<lambda>r. \<exists>v. cell_at r c = Obj (SNum v) \<and> p v) (rows df))"
proof -
  have "compare_column p (column df c)
          = Inr (map (\<lambda>x. \<exists>v. x = Obj (SNum v) \<and> p v) (column df c))"
    by (rule compare_column_numeric) (use assms in \<open>auto simp: column_def\<close>)
  then show ?thesis by (simp add: column_def comp_def)
qed

text \<open>
  Claim C5. For a registered rule: a table lacking one of the three columns gives the
  table without rows. Otherwise, when no age cell holds a text, the result keeps, in
  their order, exactly the rows whose breed is one of the rule's, whose sex is the
  rule's and whose age is a number within the rule's bounds; a row with a missing
  value in one of the three columns is not kept. When some age cell holds a text the
  comparison raises \<open>TypeError\<close>, so the claim does not hold for every table.
\<close>

theorem apply_spec_filter_selects:
  assumes "map_of FILTER_SPECS k = Some spec"
  shows
    "(\<not> {''breed'', ''sex_upon_outcome'', ''age_upon_outcome_in_weeks''} \<subseteq> set (columns df)
        \<longrightarrow> apply_spec_filter df k = Inr (df\<lparr>rows := []\<rparr>)) \<and>
     ({''breed'', ''sex_upon_outcome'', ''age_upon_outcome_in_weeks''} \<subseteq> set (columns df) \<and>
      (\<forall>r \<in> set (rows df). \<forall>s. cell_at r ''age_upon_outcome_in_weeks'' \<noteq> Obj (SStr s))
        \<longrightarrow> apply_spec_filter df k =
              Inr (df\<lparr>rows := filter (\<lambda>r.
                     (\<exists>b \<in> breeds spec. cell_at r ''breed'' = Obj (SStr b)) \<and>
                     cell_at r ''sex_upon_outcome'' = Obj (SStr (sex spec)) \<and>
                     (\<exists>x. cell_at r ''age_upon_outcome_in_weeks'' = Obj (SNum x) \<and>
                          age_min spec \<le> x \<and> x \<le> age_max spec)) (rows df)\<rparr>)) \<and>
     ({''breed'', ''sex_upon_outcome'', ''age_upon_outcome_in_weeks''} \<subseteq> set (columns df) \<and>
      (\<exists>r \<in> set (rows df). \<exists>s. cell_at r ''age_upon_outcome_in_weeks'' = Obj (SStr s))
        \<longrightarrow> apply_spec_filter df k = Inl TypeError)"
proof (intro conjI impI)
  assume "\<not> {''breed'', ''sex_upon_outcome'', ''age_upon_outcome_in_weeks''} \<subseteq> set (columns df)"
  then show "apply_spec_filter df k = Inr (df\<lparr>rows := []\<rparr>)"
    using assms by (simp add: apply_spec_filter_def)
next
  let ?age = "''age_upon_outcome_in_weeks''"
  assume h: "{''breed'', ''sex_upon_outcome'', ?age} \<subseteq> set (columns df) \<and>
             (\<forall>r \<in> set (rows df). \<forall>s. cell_at r ?age \<noteq> Obj (SStr s))"
  then have n: "\<forall>r \<in> set (rows df). \<forall>s. cell_at r ?age \<noteq> Obj (SStr s)" by simp
  have f: "(\<lambda>r. (((\<exists>s \<in> breeds spec. cell_at r ''breed'' = Obj (SStr s)) \<and>
                  cell_at r ''sex_upon_outcome'' = Obj (SStr (sex spec))) \<and>
                 (\<exists>v. cell_at r ?age = Obj (SNum v) \<and> age_min spec \<le> v)) \<and>
                (\<exists>v. cell_at r ?age = Obj (SNum v) \<and> v \<le> age_max spec))
         = (\<lambda>r. (\<exists>b \<in> breeds spec. cell_at r ''breed'' = Obj (SStr b)) \<and>
                 cell_at r ''sex_upon_outcome'' = Obj (SStr (sex spec)) \<and>
                 (\<exists>x. cell_at r ?age = Obj (SNum x) \<and> age_min spec \<le> x \<and> x \<le> age_max spec))"
    by (rule ext) auto
  have "apply_spec_filter df k =
          Inr (loc df (map (\<lambda>r. (((\<exists>s \<in> breeds spec. cell_at r ''breed'' = Obj (SStr s)) \<and>
                  cell_at r ''sex_upon_outcome'' = Obj (SStr (sex spec))) \<and>
                 (\<exists>v. cell_at r ?age = Obj (SNum v) \<and> age_min spec \<le> v)) \<and>
                (\<exists>v. cell_at r ?age = Obj (SNum v) \<and> v \<le> age_max spec)) (rows df)))"
    using assms h
    by (simp add: apply_spec_filter_def Let_def isin_column eq_str_column
          compare_column_column [OF n] and_mask_map)
  then show "apply_spec_filter df k =
              Inr (df\<lparr>rows := filter (\<lambda>r.
                     (\<exists>b \<in> breeds spec. cell_at r ''breed'' = Obj (SStr b)) \<and>
                     cell_at r ''sex_upon_outcome'' = Obj (SStr (sex spec)) \<and>
                     (\<exists>x. cell_at r ''age_upon_outcome_in_weeks'' = Obj (SNum x) \<and>
                          age_min spec \<le> x \<and> x \<le> age_max spec)) (rows df)\<rparr>)"
    by (simp only: loc_map f)
next
  let ?age = "''age_upon_outcome_in_weeks''"
  assume h: "{''breed'', ''sex_upon_outcome'', ?age} \<subseteq> set (columns df) \<and>
             (\<exists>r \<in> set (rows df). \<exists>s. cell_at r ?age = Obj (SStr s))"
  then obtain s where "Obj (SStr s) \<in> set (column df ?age)"
    by (force simp: column_def)
  then have "compare_column p (column df ?age) = Inl TypeError" for p
    by (rule compare_column_string)
  then show "apply_spec_filter df k = Inl TypeError"
    using assms h by (simp add: apply_spec_filter_def Let_def)
qed

theorem apply_spec_filter_selects_witness:
  "apply_spec_filter (from_records [newfoundland, poodle]) ''WATER'' = Inr (from_records [newfoundland]) \<and>
   apply_spec_filter (from_records [[(''breed'', SStr ''Newfoundland'')]]) ''WATER''
     = Inr \<lparr>columns = [''breed''], rows = []\<rparr> \<and>
   apply_spec_filter (from_records [newfoundland, unknown_age]) ''WATER'' = Inl TypeError"
proof -
  have h: "map_of FILTER_SPECS ''WATER''
             = Some \<lparr>breeds = {''Labrador Retriever Mix'', ''Chesapeake Bay Retriever'', ''Newfoundland''},
                     sex = ''Intact Female'', age_min = 26, age_max = 156\<rparr>"
    by (simp add: FILTER_SPECS_def)
  have d2: "from_records [newfoundland, poodle] =
              \<lparr>columns = [''breed'', ''sex_upon_outcome'', ''age_upon_outcome_in_weeks''],
               rows = [[(''breed'', Obj (SStr ''Newfoundland'')),
                        (''sex_upon_outcome'', Obj (SStr ''Intact Female'')),
                        (''age_upon_outcome_in_weeks'', Obj (SNum 100))],
                       [(''breed'', Obj (SStr ''Poodle'')),
                        (''sex_upon_outcome'', Obj (SStr ''Intact Female'')),
                        (''age_upon_outcome_in_weeks'', Obj (SNum 100))]]\<rparr>"
    by code_simp
  have d1: "from_records [newfoundland] =
              \<lparr>columns = [''breed'', ''sex_upon_outcome'', ''age_upon_outcome_in_weeks''],
               rows = [[(''breed'', Obj (SStr ''Newfoundland'')),
                        (''sex_upon_outcome'', Obj (SStr ''Intact Female'')),
                        (''age_upon_outcome_in_weeks'', Obj (SNum 100))]]\<rparr>"
    by code_simp
  have d0: "from_records [[(''breed'', SStr ''Newfoundland'')]] =
              \<lparr>columns = [''breed''], rows = [[(''breed'', Obj (SStr ''Newfoundland''))]]\<rparr>"
    by code_simp
  have d3: "from_records [newfoundland, unknown_age] =
              \<lparr>columns = [''breed'', ''sex_upon_outcome'', ''age_upon_outcome_in_weeks''],
               rows = [[(''breed'', Obj (SStr ''Newfoundland'')),
                        (''sex_upon_outcome'', Obj (SStr ''Intact Female'')),
                        (''age_upon_outcome_in_weeks'', Obj (SNum 100))],
                       [(''breed'', Obj (SStr ''Newfoundland'')),
                        (''sex_upon_outcome'', Obj (SStr ''Intact Female'')),
                        (''age_upon_outcome_in_weeks'', Obj (SStr ''unknown''))]]\<rparr>"
    by code_simp
  show ?thesis
    using apply_spec_filter_selects [OF h, of "from_records [newfoundland, poodle]"]
          apply_spec_filter_selects [OF h, of "from_records [[(''breed'', SStr ''Newfoundland'')]]"]
          apply_spec_filter_selects [OF h, of "from_records [newfoundland, unknown_age]"]
    unfolding d0 d1 d2 d3 by (simp add: cell_at_def)
qed

text \<open>A record whose age is the text \<open>unknown\<close> makes the mask raise.\<close>

theorem string_age_raises:
  "apply_spec_filter (from_records [newfoundland, unknown_age]) ''WATER'' = Inl TypeError"
  by code_simp

section \<open>Properties of the cleaned table\<close>

lemma map_column_alt: "map_column f c df = df\<lparr>rows := map (map_cell f c) (rows df)\<rparr>"
  by (simp add: map_column_def)

lemma from_records_alt:
  "from_records ds =
     \<lparr>columns = first_seen (concat (map (map fst) ds)),
      rows = map (\<lambda>d. map (\<lambda>c. (c, record_cell d c)) (first_seen (concat (map (map fst) ds)))) ds\<rparr>"
  by (simp add: from_records_def Let_def)

lemma cell_at_absent: "k \<notin> fst ` set r \<Longrightarrow> cell_at r k = NaN"
  by (simp add: cell_at_def map_of_eq_None_iff [THEN iffD2])

lemma map_of_map_cell:
  "map_of (map_cell f c r) k = (if k = c then map_option f (map_of r k) else map_of r k)"
  by (induction r) (auto simp: map_cell_def)

lemma cell_at_map_cell:
  "cell_at (map_cell f c r) k = (if k = c \<and> k \<in> fst ` set r then f (cell_at r k) else cell_at r k)"
  by (auto simp: cell_at_def map_of_map_cell dom_map_of_conv_image_fst [symmetric] domIff
           split: option.splits)

lemma keys_map_cell: "map fst (map_cell f c r) = map fst r"
  by (induction r) (auto simp: map_cell_def)

lemma cell_at_drop: "cell_at (filter (\<lambda>(k, v). k \<noteq> c) r) k = (if k = c then NaN else cell_at r k)"
  by (induction r) (auto simp: cell_at_def)

lemma keys_drop: "map fst (filter (\<lambda>(k, v). k \<noteq> c) r) = filter (\<lambda>k. k \<noteq> c) (map fst r)"
  by (induction r) auto

lemma set_first_seen: "set (first_seen xs) = set xs"
  by (induction xs) auto

lemma apply_to_columns_Cons:
  "apply_to_columns f (c # cs) df =
     apply_to_columns f cs (if c \<in> set (columns df) then map_column f c df else df)"
  by (simp add: apply_to_columns_def)

lemma apply_to_columns_shape:
  "columns (apply_to_columns f cs df) = columns df \<and>
   length (rows (apply_to_columns f cs df)) = length (rows df)"
proof (induction cs arbitrary: df)
  case Nil
  show ?case by (simp add: apply_to_columns_def)
next
  case (Cons c cs)
  show ?case
    using Cons.IH [of "map_column f c df"] Cons.IH [of df]
    by (simp add: apply_to_columns_Cons map_column_alt)
qed

lemma apply_to_columns_cell:
  assumes "distinct cs" and "i < length (rows df)" and "map fst (rows df ! i) = columns df"
  shows "cell_at (rows (apply_to_columns f cs df) ! i) k =
           (if k \<in> set cs \<and> k \<in> set (columns df) then f (cell_at (rows df ! i) k)
            else cell_at (rows df ! i) k) \<and>
         map fst (rows (apply_to_columns f cs df) ! i) = columns df"
  using assms
proof (induction cs arbitrary: df)
  case Nil
  then show ?case by (simp add: apply_to_columns_def)
next
  case (Cons c cs)
  let ?d = "if c \<in> set (columns df) then map_column f c df else df"
  have 1: "distinct cs" and 2: "c \<notin> set cs" using Cons.prems(1) by auto
  have 3: "i < length (rows ?d)" using Cons.prems(2) by (simp add: map_column_alt)
  have 4: "columns ?d = columns df" by (simp add: map_column_alt)
  have 5: "map fst (rows ?d ! i) = columns ?d"
    using Cons.prems(2,3) by (simp add: map_column_alt keys_map_cell)
  have "fst ` set (rows df ! i) = set (columns df)"
    using Cons.prems(3) by (metis set_map)
  then have 6: "cell_at (rows ?d ! i) k =
             (if k = c \<and> k \<in> set (columns df) then f (cell_at (rows df ! i) k)
              else cell_at (rows df ! i) k)"
    using Cons.prems(2) by (auto simp: map_column_alt cell_at_map_cell)
  show ?case
    unfolding apply_to_columns_Cons using Cons.IH [OF 1 3 5] 2 4 6 by auto
qed

lemma map_of_tabulate:
  "map_of (map (\<lambda>c. (c, g c)) cs) k = (if k \<in> set cs then Some (g k) else None)"
  by (induction cs) auto

lemma from_records_shape:
  "length (rows (from_records ds)) = length ds \<and>
   set (columns (from_records ds)) = (\<Union>d \<in> set ds. fst ` set d)"
  by (auto simp: from_records_alt set_first_seen)

lemma from_records_cell:
  assumes "i < length ds"
  shows "cell_at (rows (from_records ds) ! i) k = record_cell (ds ! i) k \<and>
         map fst (rows (from_records ds) ! i) = columns (from_records ds)"
proof -
  let ?cols = "first_seen (concat (map (map fst) ds))"
  have r: "rows (from_records ds) ! i = map (\<lambda>c. (c, record_cell (ds ! i) c)) ?cols"
    using assms by (simp add: from_records_alt)
  have "map_of (map (\<lambda>c. (c, record_cell (ds ! i) c)) ?cols) k
          = (if k \<in> set ?cols then Some (record_cell (ds ! i) k) else None)"
    by (rule map_of_tabulate)
  moreover have "record_cell (ds ! i) k = NaN" if "k \<notin> set ?cols"
  proof -
    have "k \<notin> fst ` set (ds ! i)" using that assms by (auto simp: set_first_seen)
    then show ?thesis by (simp add: record_cell_def map_of_eq_None_iff [THEN iffD2])
  qed
  ultimately have "cell_at (rows (from_records ds) ! i) k = record_cell (ds ! i) k"
    unfolding r by (auto simp: cell_at_def)
  moreover have "map fst (rows (from_records ds) ! i) = columns (from_records ds)"
    unfolding r by (simp add: from_records_alt comp_def)
  ultimately show ?thesis by simp
qed

lemma column_names:
  "distinct numeric_columns \<and> distinct text_columns \<and> ''_id'' \<notin> set numeric_columns \<and>
   ''_id'' \<notin> set text_columns \<and> set numeric_columns \<inter> set text_columns = {}"
  by (simp add: numeric_columns_def text_columns_def)

lemma filter_absent: "x \<notin> set xs \<Longrightarrow> filter (\<lambda>k. k \<noteq> x) xs = xs"
  by (induction xs) auto

lemma drop_id_shape:
  "columns (drop_column c (map_column g c df)) = filter (\<lambda>k. k \<noteq> c) (columns df) \<and>
   length (rows (drop_column c (map_column g c df))) = length (rows df)"
  by (simp add: drop_column_def map_column_alt)

lemma drop_id_cell:
  assumes "i < length (rows df)" and "map fst (rows df ! i) = columns df"
  shows "cell_at (rows (drop_column c (map_column g c df)) ! i) k
           = (if k = c then NaN else cell_at (rows df ! i) k) \<and>
         map fst (rows (drop_column c (map_column g c df)) ! i) = filter (\<lambda>k. k \<noteq> c) (columns df)"
  using assms
  by (simp add: drop_column_def map_column_alt cell_at_drop cell_at_map_cell keys_drop keys_map_cell)

text \<open>The cleaning, cell by cell, on a table whose rows run over its columns.\<close>

lemma clean_df_shape:
  "length (rows (clean_df parse fmt df)) = length (rows df) \<and>
   columns (clean_df parse fmt df)
     = (if df_empty df then columns df else filter (\<lambda>k. k \<noteq> ''_id'') (columns df))"
  by (simp add: clean_df_def Let_def apply_to_columns_shape drop_id_shape filter_absent)

lemma clean_df_cell:
  assumes "i < length (rows df)" and "map fst (rows df ! i) = columns df"
  shows "cell_at (rows (clean_df parse fmt df) ! i) k =
           (if k = ''_id'' then NaN
            else if k \<in> set numeric_columns then to_numeric parse (cell_at (rows df ! i) k)
            else if k \<in> set text_columns \<and> k \<in> set (columns df)
              then Obj (SStr (strip (astype_str fmt (cell_at (rows df ! i) k))))
            else cell_at (rows df ! i) k)"
proof -
  let ?rc = "cell_at (rows df ! i)"
  let ?N = "to_numeric parse"
  let ?S = "\<lambda>x. Obj (SStr (strip (astype_str fmt x)))"
  note F1 = assms(1) and F2 = assms(2)
  have A: "?rc j = NaN" if "j \<notin> set (columns df)" for j
  proof -
    have "j \<notin> fst ` set (rows df ! i)" using that F2 by (metis set_map)
    then show ?thesis by (simp add: cell_at_absent)
  qed
  note names = column_names
  show ?thesis
  proof (cases "df_empty df")
    case True
    then have e: "columns df = []" using F1 by (auto simp: df_empty_def)
    then have "?rc j = NaN" for j using A [of j] by simp
    then show ?thesis using True e by (simp add: clean_df_def)
  next
    case False
    define df1 where "df1 = (if ''_id'' \<in> set (columns df)
                   then drop_column ''_id''
                          (map_column (\<lambda>x. Obj (SStr (astype_str fmt x))) ''_id'' df)
                   else df)"
    define df2 where "df2 = apply_to_columns ?N numeric_columns df1"
    define df3 where "df3 = apply_to_columns ?S text_columns df2"
    have c: "clean_df parse fmt df = df3"
      using False by (simp add: clean_df_def Let_def df1_def df2_def df3_def)
    have G1: "i < length (rows df1)"
      using F1 by (simp add: df1_def drop_id_shape)
    have G4: "columns df1 = filter (\<lambda>k. k \<noteq> ''_id'') (columns df)"
      by (simp add: df1_def drop_id_shape filter_absent)
    have G2: "map fst (rows df1 ! i) = columns df1"
      unfolding G4 using drop_id_cell [OF F1 F2] F2 by (simp add: df1_def filter_absent)
    have G3: "cell_at (rows df1 ! i) j = (if j = ''_id'' then NaN else ?rc j)" for j
      using drop_id_cell [OF F1 F2, where c = "''_id''" and k = j] A [of j]
      by (auto simp: df1_def)
    have H1: "i < length (rows df2)"
      using G1 by (simp add: df2_def apply_to_columns_shape)
    have H4: "columns df2 = columns df1" by (simp add: df2_def apply_to_columns_shape)
    have H2: "map fst (rows df2 ! i) = columns df2"
      and H3: "cell_at (rows df2 ! i) j =
                 (if j \<in> set numeric_columns \<and> j \<in> set (columns df1)
                  then ?N (cell_at (rows df1 ! i) j) else cell_at (rows df1 ! i) j)" for j
      using apply_to_columns_cell [OF _ G1 G2, of numeric_columns ?N j] names
      by (simp_all add: df2_def H4 [unfolded df2_def])
    have I3: "cell_at (rows df3 ! i) j =
                 (if j \<in> set text_columns \<and> j \<in> set (columns df2)
                  then ?S (cell_at (rows df2 ! i) j) else cell_at (rows df2 ! i) j)" for j
      using apply_to_columns_cell [OF _ H1 H2, of text_columns ?S j] names
      by (simp add: df3_def)
    have K: "j \<in> set (columns df1) \<longleftrightarrow> j \<in> set (columns df) \<and> j \<noteq> ''_id''" for j
      by (auto simp: G4)
    show ?thesis
      unfolding c I3 H3 G3 H4 K using A [of k] names by auto
  qed
qed

text \<open>The table pandas builds from the records, cell by cell.\<close>

lemma column_from_records: "column (from_records ds) k = map (\<lambda>d. record_cell d k) ds"
  by (rule nth_equalityI) (simp_all add: column_def from_records_shape from_records_cell)

lemma infer_columns_shape:
  "columns (infer_columns infer df) = columns df \<and>
   length (rows (infer_columns infer df)) = length (rows df)"
  by (simp add: infer_columns_def)

lemma infer_columns_cell:
  assumes "i < length (rows df)"
  shows "cell_at (rows (infer_columns infer df) ! i) k
           = (if k \<in> set (columns df) then infer (column df k) ! i else NaN) \<and>
         map fst (rows (infer_columns infer df) ! i) = columns df"
  using assms by (simp add: infer_columns_def cell_at_def map_of_tabulate comp_def)

lemma keeps_valuesD:
  assumes "keeps_values infer" and "i < length xs"
  shows "infer xs ! i = xs ! i \<or> (xs ! i = Obj SNone \<and> infer xs ! i = NaN)"
  using assms by (simp add: keeps_values_def)

lemma keeps_values_infer_objects: "keeps_values infer_objects"
  by (simp add: keeps_values_def infer_objects_def)

lemma built_cell:
  assumes "keeps_values infer" and "i < length ds"
  shows "cell_at (rows (infer_columns infer (from_records ds)) ! i) k
           = infer (map (\<lambda>d. record_cell d k) ds) ! i"
proof (cases "k \<in> set (columns (from_records ds))")
  case True
  then show ?thesis
    using assms(2) by (simp add: infer_columns_cell from_records_shape column_from_records)
next
  case False
  then have "k \<notin> fst ` set (rows (from_records ds) ! i)"
    using from_records_cell [OF assms(2)] by (metis set_map)
  then have "record_cell (ds ! i) k = NaN"
    using from_records_cell [OF assms(2), of k] by (simp add: cell_at_absent)
  then have "infer (map (\<lambda>d. record_cell d k) ds) ! i = NaN"
    using keeps_valuesD [OF assms(1), of i "map (\<lambda>d. record_cell d k) ds"] assms(2) by simp
  then show ?thesis
    using False assms(2) by (simp add: infer_columns_cell from_records_shape)
qed

text \<open>
  Claim C8. Let \<open>infer\<close> keep every value but None. When the read behind \<open>read_df\<close>
  returns records, \<open>read_df\<close> returns a table with one row for each record, in order,
  and the columns of the records but the identifier; nothing is raised. In the columns
  age, latitude and longitude every cell is the numeric reading of the record's value:
  a number stays, a text that reads as a number becomes that number, any other text,
  None and a missing value become NaN. In every other column the cell is the one pandas
  built from the record's value, trimmed text in a text column; and the cell pandas
  built is the record's value unless that value is None.
\<close>

theorem read_df_coerces_numeric_columns:
  assumes "keeps_values infer"
    and "read c query (normalize_fields flds) None 0 (\<not> force_refresh) m = (Inr ds, m')"
  shows "\<exists>df. read_df c infer parse fmt query flds force_refresh m = (Inr df, m') \<and>
              length (rows df) = length ds \<and>
              columns df = filter (\<lambda>k. k \<noteq> ''_id'') (columns (from_records ds)) \<and>
              (\<forall>i < length ds. \<forall>k \<in> set numeric_columns.
                 cell_at (rows df ! i) k = to_numeric parse (record_cell (ds ! i) k)) \<and>
              (\<forall>i < length ds. \<forall>k \<in> set numeric_columns. \<forall>s.
                 map_of (ds ! i) k = Some (SStr s) \<and> parse s = None
                   \<longrightarrow> cell_at (rows df ! i) k = NaN) \<and>
              (\<forall>i < length ds. \<forall>k. k \<notin> set numeric_columns \<longrightarrow>
                 cell_at (rows df ! i) k =
                   (if k = ''_id'' then NaN
                    else if k \<in> set text_columns \<and> k \<in> set (columns (from_records ds))
                      then Obj (SStr (strip (astype_str fmt
                                  (infer (map (\<lambda>d. record_cell d k) ds) ! i))))
                    else infer (map (\<lambda>d. record_cell d k) ds) ! i)) \<and>
              (\<forall>i < length ds. \<forall>k. record_cell (ds ! i) k \<noteq> Obj SNone \<longrightarrow>
                 infer (map (\<lambda>d. record_cell d k) ds) ! i = record_cell (ds ! i) k)"
proof -
  let ?raw = "infer_columns infer (from_records ds)"
  let ?out = "clean_df parse fmt ?raw"
  let ?built = "\<lambda>k i. infer (map (\<lambda>d. record_cell d k) ds) ! i"
  have r: "read_df c infer parse fmt query flds force_refresh m = (Inr ?out, m')"
    using assms(2) by (simp add: read_df_def)
  have len: "length (rows ?out) = length ds"
    by (simp add: clean_df_shape infer_columns_shape from_records_shape)
  have "columns (from_records ds) = []" if e: "df_empty ?raw"
  proof (cases "ds = []")
    case True
    then show ?thesis by (simp add: from_records_alt)
  next
    case False
    then have "rows ?raw \<noteq> []"
      using infer_columns_shape [of infer "from_records ds"] from_records_shape [of ds]
      by (metis length_0_conv)
    then show ?thesis using e by (simp add: df_empty_def infer_columns_shape)
  qed
  then have cols: "columns ?out = filter (\<lambda>k. k \<noteq> ''_id'') (columns (from_records ds))"
    by (simp add: clean_df_shape infer_columns_shape)
  have keep: "?built k i = record_cell (ds ! i) k \<or> (record_cell (ds ! i) k = Obj SNone \<and> ?built k i = NaN)"
    if "i < length ds" for i k
    using keeps_valuesD [OF assms(1), of i "map (\<lambda>d. record_cell d k) ds"] that by simp
  have cell: "cell_at (rows ?out ! i) k =
           (if k = ''_id'' then NaN
            else if k \<in> set numeric_columns then to_numeric parse (?built k i)
            else if k \<in> set text_columns \<and> k \<in> set (columns (from_records ds))
              then Obj (SStr (strip (astype_str fmt (?built k i))))
            else ?built k i)"
    if i: "i < length ds" for i k
  proof -
    have 1: "i < length (rows ?raw)"
      using i by (simp add: infer_columns_shape from_records_shape)
    have 2: "map fst (rows ?raw ! i) = columns ?raw"
      using i by (simp add: infer_columns_cell infer_columns_shape from_records_shape)
    show ?thesis
      using clean_df_cell [OF 1 2, of parse fmt k] built_cell [OF assms(1) i]
      by (simp add: infer_columns_shape)
  qed
  have num: "cell_at (rows ?out ! i) k = to_numeric parse (record_cell (ds ! i) k)"
    if "i < length ds" and "k \<in> set numeric_columns" for i k
    using cell [OF that(1), of k] keep [OF that(1), of k] that(2) column_names by auto
  have bad: "cell_at (rows ?out ! i) k = NaN"
    if "i < length ds" and "k \<in> set numeric_columns"
      and "map_of (ds ! i) k = Some (SStr s) \<and> parse s = None" for i k s
    using num [OF that(1,2)] that(3) by (simp add: record_cell_def)
  have other: "cell_at (rows ?out ! i) k =
                   (if k = ''_id'' then NaN
                    else if k \<in> set text_columns \<and> k \<in> set (columns (from_records ds))
                      then Obj (SStr (strip (astype_str fmt (?built k i))))
                    else ?built k i)"
    if "i < length ds" and "k \<notin> set numeric_columns" for i k
    using cell [OF that(1), of k] that(2) by simp
  have same: "?built k i = record_cell (ds ! i) k"
    if "i < length ds" and "record_cell (ds ! i) k \<noteq> Obj SNone" for i k
    using keep [OF that(1), of k] that(2) by simp
  show ?thesis
    using r len cols num bad other same by blast
qed

theorem read_df_coerces_numeric_columns_witness:
  "(case fst (read_df mem_coll infer_objects parse_digits (\<lambda>x. ''nan'') None None False
                (new_manager pound)) of
      Inl e \<Rightarrow> False
    | Inr df \<Rightarrow>
        length (rows df) = 2 \<and>
        cell_at (rows df ! 0) ''age_upon_outcome_in_weeks'' = Obj (SNum 100) \<and>
        cell_at (rows df ! 1) ''age_upon_outcome_in_weeks'' = NaN \<and>
        cell_at (rows df ! 1) ''location_lat'' = Obj (SNum 30) \<and>
        cell_at (rows df ! 1) ''breed'' = Obj (SStr ''Poodle'') \<and>
        cell_at (rows df ! 1) ''sex_upon_outcome'' = Obj (SStr ''nan'') \<and>
        cell_at (rows df ! 0) ''weight'' = Obj (SNum 40) \<and>
        cell_at (rows df ! 1) ''weight'' = NaN)"
proof -
  let ?m = "new_manager pound"
  let ?ds = "[weighed, stray]"
  have "fst (read mem_coll None (normalize_fields None) None 0 (\<not> False) ?m) = Inr ?ds"
    by code_simp
  then have h: "read mem_coll None (normalize_fields None) None 0 (\<not> False) ?m
                  = (Inr ?ds, snd (read mem_coll None (normalize_fields None) None 0 (\<not> False) ?m))"
    by (simp add: prod_eq_iff)
  have p: "parse_digits ''unknown'' = None" "parse_digits ''30'' = Some 30"
    by code_simp+
  have s: "strip '' Poodle '' = ''Poodle''" "strip ''nan'' = ''nan''"
    by code_simp+
  have rc: "record_cell weighed ''age_upon_outcome_in_weeks'' = Obj (SNum 100)"
    "record_cell stray ''age_upon_outcome_in_weeks'' = Obj (SStr ''unknown'')"
    "record_cell stray ''location_lat'' = Obj (SStr ''30'')"
    by code_simp+
  have inf: "infer_objects (map (\<lambda>d. record_cell d ''breed'') ?ds) ! 1 = Obj (SStr '' Poodle '')"
    "infer_objects (map (\<lambda>d. record_cell d ''sex_upon_outcome'') ?ds) ! 1 = NaN"
    "infer_objects (map (\<lambda>d. record_cell d ''weight'') ?ds) ! 0 = Obj (SNum 40)"
    "infer_objects (map (\<lambda>d. record_cell d ''weight'') ?ds) ! 1 = NaN"
    by code_simp+
  have cols: "columns (from_records ?ds)
                = [''weight'', ''breed'', ''sex_upon_outcome'', ''age_upon_outcome_in_weeks'',
                   ''location_lat'']"
    by code_simp
  obtain df where
    1: "read_df mem_coll infer_objects parse_digits (\<lambda>x. ''nan'') None None False ?m
          = (Inr df, snd (read mem_coll None (normalize_fields None) None 0 (\<not> False) ?m))" and
    2: "length (rows df) = length ?ds" and
    3: "\<forall>i < length ?ds. \<forall>k \<in> set numeric_columns.
          cell_at (rows df ! i) k = to_numeric parse_digits (record_cell (?ds ! i) k)" and
    4: "\<forall>i < length ?ds. \<forall>k. k \<notin> set numeric_columns \<longrightarrow>
          cell_at (rows df ! i) k =
            (if k = ''_id'' then NaN
             else if k \<in> set text_columns \<and> k \<in> set (columns (from_records ?ds))
               then Obj (SStr (strip (astype_str (\<lambda>x. ''nan'')
                           (infer_objects (map (\<lambda>d. record_cell d k) ?ds) ! i))))
             else infer_objects (map (\<lambda>d. record_cell d k) ?ds) ! i)"
    using read_df_coerces_numeric_columns [OF keeps_values_infer_objects h,
            of parse_digits "\<lambda>x. ''nan''"]
    by blast
  have c0: "cell_at (rows df ! 0) ''age_upon_outcome_in_weeks'' = Obj (SNum 100)"
    using 3 [rule_format, of 0 "''age_upon_outcome_in_weeks''"] rc
    by (simp add: numeric_columns_def)
  have c1: "cell_at (rows df ! 1) ''age_upon_outcome_in_weeks'' = NaN"
    using 3 [rule_format, of 1 "''age_upon_outcome_in_weeks''"] rc p
    by (simp add: numeric_columns_def)
  have c2: "cell_at (rows df ! 1) ''location_lat'' = Obj (SNum 30)"
    using 3 [rule_format, of 1 "''location_lat''"] rc p
    by (simp add: numeric_columns_def)
  have c3: "cell_at (rows df ! 1) ''breed'' = Obj (SStr ''Poodle'')"
    using 4 [rule_format, of 1 "''breed''"] s inf
    by (simp add: numeric_columns_def text_columns_def cols)
  have c4: "cell_at (rows df ! 1) ''sex_upon_outcome'' = Obj (SStr ''nan'')"
    using 4 [rule_format, of 1 "''sex_upon_outcome''"] s inf
    by (simp add: numeric_columns_def text_columns_def cols)
  have c5: "cell_at (rows df ! 0) ''weight'' = Obj (SNum 40)"
    using 4 [rule_format, of 0 "''weight''"] inf
    by (simp add: numeric_columns_def text_columns_def cols)
  have c6: "cell_at (rows df ! 1) ''weight'' = NaN"
    using 4 [rule_format, of 1 "''weight''"] inf
    by (simp add: numeric_columns_def text_columns_def cols)
  show ?thesis using 1 2 c0 c1 c2 c3 c4 c5 c6 by simp
qed

end
